theory Spec2Isabelle
  imports Complex_Main "HOL-Library.Word" "HOL-Library.Multiset"
begin

section \<open>Values of type double\<close>

text \<open>
  A C++ \<open>double\<close> is modelled as an exact real number or one of the three special values of
  IEEE 754 arithmetic. The finite part is idealised: no rounding, no overflow to infinity, no
  underflow, and a single zero that behaves as \<open>+0.0\<close>. The special values are produced and
  propagated as IEEE 754 prescribes, so that a division by zero, a logarithm of a non-positive
  number or a square root of a negative number is a visible outcome of the model and never the
  value 0 that HOL gives to \<open>x / 0\<close>.
\<close>

datatype double = Fin real | PInf | NInf | NaN

definition infty :: "bool \<Rightarrow> double" where
  "infty positive = (if positive then PInf else NInf)"

fun dneg :: "double \<Rightarrow> double" where
  "dneg (Fin a) = Fin (- a)"
| "dneg PInf = NInf"
| "dneg NInf = PInf"
| "dneg NaN = NaN"

fun dadd :: "double \<Rightarrow> double \<Rightarrow> double" where
  "dadd (Fin a) (Fin b) = Fin (a + b)"
| "dadd NaN _ = NaN"
| "dadd _ NaN = NaN"
| "dadd PInf NInf = NaN"
| "dadd NInf PInf = NaN"
| "dadd PInf _ = PInf"
| "dadd _ PInf = PInf"
| "dadd NInf _ = NInf"
| "dadd _ NInf = NInf"

definition dsub :: "double \<Rightarrow> double \<Rightarrow> double" where
  "dsub a b = dadd a (dneg b)"

fun dmul :: "double \<Rightarrow> double \<Rightarrow> double" where
  "dmul (Fin a) (Fin b) = Fin (a * b)"
| "dmul NaN _ = NaN"
| "dmul _ NaN = NaN"
| "dmul PInf (Fin b) = (if b = 0 then NaN else infty (0 < b))"
| "dmul NInf (Fin b) = (if b = 0 then NaN else infty (b < 0))"
| "dmul (Fin a) PInf = (if a = 0 then NaN else infty (0 < a))"
| "dmul (Fin a) NInf = (if a = 0 then NaN else infty (a < 0))"
| "dmul PInf PInf = PInf"
| "dmul PInf NInf = NInf"
| "dmul NInf PInf = NInf"
| "dmul NInf NInf = PInf"

fun ddiv :: "double \<Rightarrow> double \<Rightarrow> double" where
  "ddiv (Fin a) (Fin b) =
     (if b = 0 then (if a = 0 then NaN else infty (0 < a)) else Fin (a / b))"
| "ddiv NaN _ = NaN"
| "ddiv _ NaN = NaN"
| "ddiv (Fin a) _ = Fin 0"
| "ddiv PInf (Fin b) = infty (0 \<le> b)"
| "ddiv NInf (Fin b) = infty (b < 0)"
| "ddiv PInf _ = NaN"
| "ddiv NInf _ = NaN"

fun dlog :: "double \<Rightarrow> double" where
  "dlog (Fin a) = (if 0 < a then Fin (ln a) else if a = 0 then NInf else NaN)"
| "dlog PInf = PInf"
| "dlog _ = NaN"

fun dsqrt :: "double \<Rightarrow> double" where
  "dsqrt (Fin a) = (if 0 \<le> a then Fin (sqrt a) else NaN)"
| "dsqrt PInf = PInf"
| "dsqrt _ = NaN"

fun dexp :: "double \<Rightarrow> double" where
  "dexp (Fin a) = Fin (exp a)"
| "dexp PInf = PInf"
| "dexp NInf = Fin 0"
| "dexp NaN = NaN"

text \<open>The comparison \<open>a < b\<close> of two doubles: false as soon as one of them is NaN.\<close>

fun dless :: "double \<Rightarrow> double \<Rightarrow> bool" where
  "dless (Fin a) (Fin b) = (a < b)"
| "dless NaN _ = False"
| "dless _ NaN = False"
| "dless PInf _ = False"
| "dless NInf NInf = False"
| "dless NInf _ = True"
| "dless (Fin a) PInf = True"
| "dless (Fin a) NInf = False"

text \<open>\<open>std::max(a, b)\<close> is \<open>(a < b) ? b : a\<close>.\<close>

definition dmax :: "double \<Rightarrow> double \<Rightarrow> double" where
  "dmax a b = (if dless a b then b else a)"

section \<open>Module 2: historical volatility\<close>

text \<open>
  The first loop of \<open>calculate_historical_volatility\<close> runs \<open>i\<close> from 1 to
  \<open>prices.size() - 1\<close>; its state is the vector \<open>log_returns\<close> and the running \<open>sum\<close>.
  Both reads \<open>prices[i]\<close> and \<open>prices[i - 1]\<close> are in range for these \<open>i\<close>.
\<close>

definition returns_step :: "double list \<Rightarrow> nat \<Rightarrow> double list \<times> double \<Rightarrow> double list \<times> double" where
  "returns_step prices i st =
     (let u_i = dlog (ddiv (prices ! i) (prices ! (i - 1)))
      in (fst st @ [u_i], dadd (snd st) u_i))"

definition returns_loop :: "double list \<Rightarrow> double list \<times> double" where
  "returns_loop prices = fold (returns_step prices) [1..<length prices] ([], Fin 0)"

text \<open>The second loop: \<open>for (double u : log_returns) sq_sum += (u - mean) * (u - mean)\<close>.\<close>

definition sq_loop :: "double \<Rightarrow> double list \<Rightarrow> double" where
  "sq_loop mean log_returns =
     fold (\<lambda>u sq_sum. dadd sq_sum (dmul (dsub u mean) (dsub u mean))) log_returns (Fin 0)"

text \<open>
  \<open>log_returns.size() - 1\<close> is a subtraction of \<open>size_t\<close>; it is reached only with
  \<open>prices.size() \<ge> 2\<close>, hence with at least one log-return, where it does not wrap.
\<close>

definition calculate_historical_volatility :: "double list \<Rightarrow> double" where
  "calculate_historical_volatility prices =
     (if length prices < 2 then Fin (20 / 100)
      else
        let (log_returns, sum) = returns_loop prices;
            mean = ddiv sum (Fin (real (length log_returns)));
            sq_sum = sq_loop mean log_returns
        in dmul (dsqrt (ddiv sq_sum (Fin (real (length log_returns - 1))))) (dsqrt (Fin 252)))"

section \<open>Module 3: the Monte Carlo engine\<close>

record SimulationResult =
  price :: double
  std_error :: double
  avg_final_price :: double

text \<open>
  The three reduction variables of the parallel region. Every thread of the team works on a
  private copy that starts at 0; at the end of the region the private copies are added to the
  original variables (which hold 0.0). OpenMP leaves the order of these additions open; the
  model adds the copies in the order of the thread numbers.
\<close>

record accumulator =
  sum_payoffs :: double
  sum_sq_payoffs :: double
  sum_ST :: double

definition zero_sums :: accumulator where
  "zero_sums = \<lparr>sum_payoffs = Fin 0, sum_sq_payoffs = Fin 0, sum_ST = Fin 0\<rparr>"

text \<open>
  What the run-time system and the standard library decide is an input of the model:
  the size of the team, the thread that executes each iteration of the work-shared loop
  (the schedule), the count of the system clock that each thread reads when it enters the
  region, and the sequence of variates that \<open>std::normal_distribution<double>(0.0, 1.0)\<close>
  draws from a \<open>std::mt19937\<close> constructed from a given 32-bit seed (a deterministic function
  of the seed).
\<close>

record omp_env =
  num_threads :: nat
  owner :: "nat \<Rightarrow> nat"
  clock :: "nat \<Rightarrow> 64 word"
  normal_stream :: "32 word \<Rightarrow> nat \<Rightarrow> real"

text \<open>
  \<open>unsigned int seed = now().time_since_epoch().count() + omp_get_thread_num()\<close>:
  the sum is formed in the clock's 64-bit representation and truncated to 32 bits.
\<close>

definition worker_seed :: "64 word \<Rightarrow> nat \<Rightarrow> 32 word" where
  "worker_seed now thread_num = ucast (now + of_nat thread_num)"

text \<open>
  \<open>for (int i = 0; i < N; ++i)\<close>: the iterations are the \<open>i\<close> with \<open>0 \<le> i < N\<close>, none
  when \<open>N \<le> 0\<close>. The parameter \<open>N\<close> is an \<open>int\<close>, taken as the 32-bit two's complement
  integer that it is on the usual platforms.
\<close>

definition trip_count :: "32 word \<Rightarrow> nat" where
  "trip_count N = nat (sint N)"

definition thread_iterations :: "omp_env \<Rightarrow> 32 word \<Rightarrow> nat \<Rightarrow> nat list" where
  "thread_iterations env N w = filter (\<lambda>i. owner env i = w) [0..<trip_count N]"

text \<open>The thread draws one variate per iteration it executes, from its own generator.\<close>

definition thread_draws :: "omp_env \<Rightarrow> 32 word \<Rightarrow> nat \<Rightarrow> real list" where
  "thread_draws env N w =
     map (normal_stream env (worker_seed (clock env w) w))
       [0..<length (thread_iterations env N w)]"

text \<open>The loop body. \<open>terminal_price\<close> is the local \<open>S_T\<close>, \<open>call_payoff\<close> the local \<open>payoff\<close>.\<close>

definition terminal_price :: "double \<Rightarrow> double \<Rightarrow> double \<Rightarrow> real \<Rightarrow> double" where
  "terminal_price S0 drift vol_sqrt_T Z = dmul S0 (dexp (dadd drift (dmul vol_sqrt_T (Fin Z))))"

definition call_payoff :: "double \<Rightarrow> double \<Rightarrow> double" where
  "call_payoff S_T K = dmax (dsub S_T K) (Fin 0)"

definition trial :: "double \<Rightarrow> double \<Rightarrow> double \<Rightarrow> double \<Rightarrow> real \<Rightarrow> accumulator \<Rightarrow> accumulator" where
  "trial S0 K drift vol_sqrt_T Z acc =
     (let S_T = terminal_price S0 drift vol_sqrt_T Z;
          payoff = call_payoff S_T K
      in \<lparr>sum_payoffs = dadd (sum_payoffs acc) payoff,
          sum_sq_payoffs = dadd (sum_sq_payoffs acc) (dmul payoff payoff),
          sum_ST = dadd (sum_ST acc) S_T\<rparr>)"

definition worker :: "omp_env \<Rightarrow> double \<Rightarrow> double \<Rightarrow> double \<Rightarrow> double \<Rightarrow> 32 word \<Rightarrow> nat \<Rightarrow> accumulator" where
  "worker env S0 K drift vol_sqrt_T N w =
     fold (trial S0 K drift vol_sqrt_T) (thread_draws env N w) zero_sums"

definition combine :: "accumulator \<Rightarrow> accumulator \<Rightarrow> accumulator" where
  "combine tot part =
     \<lparr>sum_payoffs = dadd (sum_payoffs tot) (sum_payoffs part),
      sum_sq_payoffs = dadd (sum_sq_payoffs tot) (sum_sq_payoffs part),
      sum_ST = dadd (sum_ST tot) (sum_ST part)\<rparr>"

definition parallel_region :: "omp_env \<Rightarrow> double \<Rightarrow> double \<Rightarrow> double \<Rightarrow> double \<Rightarrow> 32 word \<Rightarrow> accumulator" where
  "parallel_region env S0 K drift vol_sqrt_T N =
     fold (\<lambda>w tot. combine tot (worker env S0 K drift vol_sqrt_T N w))
       [0..<num_threads env] zero_sums"

text \<open>The locals computed before the region.\<close>

definition drift :: "double \<Rightarrow> double \<Rightarrow> double \<Rightarrow> double" where
  "drift r sigma T = dmul (dsub r (dmul (dmul (Fin (1 / 2)) sigma) sigma)) T"

definition vol_sqrt_T :: "double \<Rightarrow> double \<Rightarrow> double" where
  "vol_sqrt_T sigma T = dmul sigma (dsqrt T)"

definition discount_factor :: "double \<Rightarrow> double \<Rightarrow> double" where
  "discount_factor r T = dexp (dmul (dneg r) T)"

text \<open>The statistics after the region; \<open>N\<close> is converted from \<open>int\<close> to \<open>double\<close>.\<close>

definition double_of_int :: "32 word \<Rightarrow> double" where
  "double_of_int N = Fin (real_of_int (sint N))"

definition mean_payoff :: "accumulator \<Rightarrow> 32 word \<Rightarrow> double" where
  "mean_payoff tot N = ddiv (sum_payoffs tot) (double_of_int N)"

definition variance :: "accumulator \<Rightarrow> 32 word \<Rightarrow> double" where
  "variance tot N =
     dsub (ddiv (sum_sq_payoffs tot) (double_of_int N))
       (dmul (mean_payoff tot N) (mean_payoff tot N))"

definition statistics :: "double \<Rightarrow> accumulator \<Rightarrow> 32 word \<Rightarrow> SimulationResult" where
  "statistics discount tot N =
     (let std_err = dmul (ddiv (dsqrt (variance tot N)) (dsqrt (double_of_int N))) discount
      in \<lparr>price = dmul (mean_payoff tot N) discount,
          std_error = std_err,
          avg_final_price = ddiv (sum_ST tot) (double_of_int N)\<rparr>)"

definition monte_carlo_pricer ::
  "double \<Rightarrow> double \<Rightarrow> double \<Rightarrow> double \<Rightarrow> double \<Rightarrow> 32 word \<Rightarrow> omp_env \<Rightarrow> SimulationResult" where
  "monte_carlo_pricer S0 K r sigma T N env =
     statistics (discount_factor r T)
       (parallel_region env S0 K (drift r sigma T) (vol_sqrt_T sigma T) N) N"

section \<open>The formulas of the specification\<close>

text \<open>
  The closed forms that the specification gives, over the real numbers, to be compared with
  what the loops above compute.
\<close>

definition gbm_terminal :: "real \<Rightarrow> real \<Rightarrow> real \<Rightarrow> real \<Rightarrow> real \<Rightarrow> real" where
  "gbm_terminal s0 r v t z = s0 * exp ((r - 0.5 * v\<^sup>2) * t + v * sqrt t * z)"

definition call_value :: "real \<Rightarrow> real \<Rightarrow> real" where
  "call_value sT k = max (sT - k) 0"

definition log_returns_spec :: "real list \<Rightarrow> real list" where
  "log_returns_spec ps = map (\<lambda>i. ln (ps ! i / ps ! (i - 1))) [1..<length ps]"

definition bessel_volatility :: "real list \<Rightarrow> real" where
  "bessel_volatility ps =
     (let us = log_returns_spec ps;
          m = length us;
          mu = sum_list us / real m
      in sqrt ((\<Sum>u\<leftarrow>us. (u - mu)\<^sup>2) / real (m - 1)) * sqrt 252)"

text \<open>All variates drawn in one run, thread after thread.\<close>

definition all_draws :: "omp_env \<Rightarrow> 32 word \<Rightarrow> real list" where
  "all_draws env N = concat (map (thread_draws env N) [0..<num_threads env])"

text \<open>A schedule hands every iteration to a thread of the team.\<close>

definition schedule_ok :: "omp_env \<Rightarrow> 32 word \<Rightarrow> bool" where
  "schedule_ok env N = list_all (\<lambda>i. owner env i < num_threads env) [0..<trip_count N]"

text \<open>A team of two threads that take the iterations in turn, for the concrete runs below.\<close>

definition two_threads :: omp_env where
  "two_threads =
     \<lparr>num_threads = 2, owner = (\<lambda>i. i mod 2), clock = (\<lambda>w. 1770000000000000000),
      normal_stream = (\<lambda>seed k. if even k then 1 else - 1)\<rparr>"

text \<open>
  A team of two threads in which thread 0 reads the clock one tick later than thread 1;
  the generator of the library is left open.
\<close>

definition racing_threads :: "(32 word \<Rightarrow> nat \<Rightarrow> real) \<Rightarrow> omp_env" where
  "racing_threads gen =
     \<lparr>num_threads = 2, owner = (\<lambda>i. i mod 2),
      clock = (\<lambda>w. if w = 0 then 1770000000000000001 else 1770000000000000000),
      normal_stream = gen\<rparr>"

text \<open>The accumulator in which every field is NaN.\<close>

definition nan_sums :: accumulator where
  "nan_sums = \<lparr>sum_payoffs = NaN, sum_sq_payoffs = NaN, sum_ST = NaN\<rparr>"

section \<open>The engine in binary64 arithmetic\<close>

text \<open>
  Where a claim is about the digits that the program returns, the rounding of binary64
  arithmetic matters. In IEEE 754 binary64 the result of \<open>+\<close>, \<open>-\<close>, \<open>*\<close>, \<open>/\<close> and
  \<open>sqrt\<close> is the exact result rounded to the nearest number with a significand of 53 bits,
  ties going to the even significand; below \<open>2\<^sup>-\<^sup>1\<^sup>0\<^sup>2\<^sup>2\<close> the spacing stays
  \<open>2\<^sup>-\<^sup>1\<^sup>0\<^sup>7\<^sup>4\<close> (subnormal numbers), and a rounded magnitude of \<open>2\<^sup>1\<^sup>0\<^sup>2\<^sup>4\<close> or more
  is an infinity. \<open>round_even\<close> rounds a real to the nearest integer, ties to even;
  \<open>ulp64 x\<close> is the spacing of the binary64 numbers around \<open>x\<close>.
\<close>

definition round_even :: "real \<Rightarrow> int" where
  "round_even y =
     (let f = \<lfloor>y\<rfloor>; d = y - of_int f
      in if d < 1 / 2 then f else if 1 / 2 < d then f + 1 else if even f then f else f + 1)"

definition ulp64 :: "real \<Rightarrow> real" where
  "ulp64 x = 2 powr (of_int (max \<lfloor>log 2 \<bar>x\<bar>\<rfloor> (- 1022)) - 52)"

definition round64 :: "double \<Rightarrow> double" where
  "round64 a =
     (case a of
        Fin x \<Rightarrow>
          if x = 0 then Fin 0
          else let y = of_int (round_even (x / ulp64 x)) * ulp64 x
               in if 2 ^ 1024 \<le> \<bar>y\<bar> then infty (0 < x) else Fin y
      | _ \<Rightarrow> a)"

text \<open>
  The operations of the program, rounded. \<open>std::exp\<close> is taken as correctly rounded too;
  the C library promises that only at 0, where \<open>exp\<close> returns exactly 1, and that is the only
  argument at which the concrete run below evaluates it. Negation, comparison and
  \<open>std::max\<close> do not round.
\<close>

definition badd :: "double \<Rightarrow> double \<Rightarrow> double" where
  "badd a b = round64 (dadd a b)"

definition bsub :: "double \<Rightarrow> double \<Rightarrow> double" where
  "bsub a b = round64 (dsub a b)"

definition bmul :: "double \<Rightarrow> double \<Rightarrow> double" where
  "bmul a b = round64 (dmul a b)"

definition bdiv :: "double \<Rightarrow> double \<Rightarrow> double" where
  "bdiv a b = round64 (ddiv a b)"

definition bsqrt :: "double \<Rightarrow> double" where
  "bsqrt a = round64 (dsqrt a)"

definition bexp :: "double \<Rightarrow> double" where
  "bexp a = round64 (dexp a)"

text \<open>
  The functions of the engine once more, with every arithmetic operation rounded
  (\<open>dr\<close> and \<open>vs\<close> are the locals \<open>drift\<close> and \<open>vol_sqrt_T\<close>).
\<close>

definition terminal_price64 :: "double \<Rightarrow> double \<Rightarrow> double \<Rightarrow> real \<Rightarrow> double" where
  "terminal_price64 S0 dr vs Z = bmul S0 (bexp (badd dr (bmul vs (Fin Z))))"

definition call_payoff64 :: "double \<Rightarrow> double \<Rightarrow> double" where
  "call_payoff64 S_T K = dmax (bsub S_T K) (Fin 0)"

definition trial64 :: "double \<Rightarrow> double \<Rightarrow> double \<Rightarrow> double \<Rightarrow> real \<Rightarrow> accumulator \<Rightarrow> accumulator" where
  "trial64 S0 K dr vs Z acc =
     (let S_T = terminal_price64 S0 dr vs Z;
          payoff = call_payoff64 S_T K
      in \<lparr>sum_payoffs = badd (sum_payoffs acc) payoff,
          sum_sq_payoffs = badd (sum_sq_payoffs acc) (bmul payoff payoff),
          sum_ST = badd (sum_ST acc) S_T\<rparr>)"

definition worker64 :: "omp_env \<Rightarrow> double \<Rightarrow> double \<Rightarrow> double \<Rightarrow> double \<Rightarrow> 32 word \<Rightarrow> nat \<Rightarrow> accumulator" where
  "worker64 env S0 K dr vs N w =
     fold (trial64 S0 K dr vs) (thread_draws env N w) zero_sums"

definition combine64 :: "accumulator \<Rightarrow> accumulator \<Rightarrow> accumulator" where
  "combine64 tot part =
     \<lparr>sum_payoffs = badd (sum_payoffs tot) (sum_payoffs part),
      sum_sq_payoffs = badd (sum_sq_payoffs tot) (sum_sq_payoffs part),
      sum_ST = badd (sum_ST tot) (sum_ST part)\<rparr>"

definition parallel_region64 :: "omp_env \<Rightarrow> double \<Rightarrow> double \<Rightarrow> double \<Rightarrow> double \<Rightarrow> 32 word \<Rightarrow> accumulator" where
  "parallel_region64 env S0 K dr vs N =
     fold (\<lambda>w tot. combine64 tot (worker64 env S0 K dr vs N w))
       [0..<num_threads env] zero_sums"

definition drift64 :: "double \<Rightarrow> double \<Rightarrow> double \<Rightarrow> double" where
  "drift64 r sigma T = bmul (bsub r (bmul (bmul (Fin (1 / 2)) sigma) sigma)) T"

definition vol_sqrt_T64 :: "double \<Rightarrow> double \<Rightarrow> double" where
  "vol_sqrt_T64 sigma T = bmul sigma (bsqrt T)"

definition discount_factor64 :: "double \<Rightarrow> double \<Rightarrow> double" where
  "discount_factor64 r T = bexp (bmul (dneg r) T)"

definition mean_payoff64 :: "accumulator \<Rightarrow> 32 word \<Rightarrow> double" where
  "mean_payoff64 tot N = bdiv (sum_payoffs tot) (double_of_int N)"

definition variance64 :: "accumulator \<Rightarrow> 32 word \<Rightarrow> double" where
  "variance64 tot N =
     bsub (bdiv (sum_sq_payoffs tot) (double_of_int N))
       (bmul (mean_payoff64 tot N) (mean_payoff64 tot N))"

definition statistics64 :: "double \<Rightarrow> accumulator \<Rightarrow> 32 word \<Rightarrow> SimulationResult" where
  "statistics64 discount tot N =
     (let std_err = bmul (bdiv (bsqrt (variance64 tot N)) (bsqrt (double_of_int N))) discount
      in \<lparr>price = bmul (mean_payoff64 tot N) discount,
          std_error = std_err,
          avg_final_price = bdiv (sum_ST tot) (double_of_int N)\<rparr>)"

definition monte_carlo_pricer64 ::
  "double \<Rightarrow> double \<Rightarrow> double \<Rightarrow> double \<Rightarrow> double \<Rightarrow> 32 word \<Rightarrow> omp_env \<Rightarrow> SimulationResult" where
  "monte_carlo_pricer64 S0 K r sigma T N env =
     statistics64 (discount_factor64 r T)
       (parallel_region64 env S0 K (drift64 r sigma T) (vol_sqrt_T64 sigma T) N) N"

section \<open>Auxiliary facts\<close>

subsection \<open>The engine on finite parameters\<close>

lemma drift_fin: "drift (Fin r) (Fin v) (Fin t) = Fin ((r - 0.5 * v\<^sup>2) * t)"
  by (simp add: drift_def dsub_def power2_eq_square)

lemma vol_sqrt_T_fin: "0 \<le> t \<Longrightarrow> vol_sqrt_T (Fin v) (Fin t) = Fin (v * sqrt t)"
  by (simp add: vol_sqrt_T_def)

lemma discount_factor_fin: "discount_factor (Fin r) (Fin t) = Fin (exp (- r * t))"
  by (simp add: discount_factor_def)

lemma terminal_price_fin:
  "0 \<le> t \<Longrightarrow>
   terminal_price (Fin s0) (drift (Fin r) (Fin v) (Fin t)) (vol_sqrt_T (Fin v) (Fin t)) z
     = Fin (gbm_terminal s0 r v t z)"
  by (simp add: terminal_price_def drift_fin vol_sqrt_T_fin gbm_terminal_def)

lemma call_payoff_fin: "call_payoff (Fin a) (Fin k) = Fin (call_value a k)"
  by (simp add: call_payoff_def call_value_def dmax_def dsub_def max_def)

lemma trial_fin:
  "0 \<le> t \<Longrightarrow>
   trial (Fin s0) (Fin k) (drift (Fin r) (Fin v) (Fin t)) (vol_sqrt_T (Fin v) (Fin t)) z
     \<lparr>sum_payoffs = Fin a, sum_sq_payoffs = Fin b, sum_ST = Fin c\<rparr>
   = \<lparr>sum_payoffs = Fin (a + call_value (gbm_terminal s0 r v t z) k),
      sum_sq_payoffs = Fin (b + (call_value (gbm_terminal s0 r v t z) k)\<^sup>2),
      sum_ST = Fin (c + gbm_terminal s0 r v t z)\<rparr>"
  by (simp add: trial_def terminal_price_fin call_payoff_fin Let_def power2_eq_square)

lemma fold_trial_fin:
  "0 \<le> t \<Longrightarrow>
   fold (trial (Fin s0) (Fin k) (drift (Fin r) (Fin v) (Fin t)) (vol_sqrt_T (Fin v) (Fin t))) zs
     \<lparr>sum_payoffs = Fin a, sum_sq_payoffs = Fin b, sum_ST = Fin c\<rparr>
   = \<lparr>sum_payoffs = Fin (a + (\<Sum>z\<leftarrow>zs. call_value (gbm_terminal s0 r v t z) k)),
      sum_sq_payoffs = Fin (b + (\<Sum>z\<leftarrow>zs. (call_value (gbm_terminal s0 r v t z) k)\<^sup>2)),
      sum_ST = Fin (c + (\<Sum>z\<leftarrow>zs. gbm_terminal s0 r v t z))\<rparr>"
proof (induction zs arbitrary: a b c)
  case Nil
  then show ?case by simp
next
  case (Cons z zs)
  then show ?case by (simp add: trial_fin add.assoc)
qed

lemma worker_fin:
  "0 \<le> t \<Longrightarrow>
   worker env (Fin s0) (Fin k) (drift (Fin r) (Fin v) (Fin t)) (vol_sqrt_T (Fin v) (Fin t)) N w
   = \<lparr>sum_payoffs = Fin (\<Sum>z\<leftarrow>thread_draws env N w. call_value (gbm_terminal s0 r v t z) k),
      sum_sq_payoffs =
        Fin (\<Sum>z\<leftarrow>thread_draws env N w. (call_value (gbm_terminal s0 r v t z) k)\<^sup>2),
      sum_ST = Fin (\<Sum>z\<leftarrow>thread_draws env N w. gbm_terminal s0 r v t z)\<rparr>"
  by (simp add: worker_def zero_sums_def fold_trial_fin)

lemma fold_combine_fin:
  "(\<And>w. part w = \<lparr>sum_payoffs = Fin (p w), sum_sq_payoffs = Fin (q w), sum_ST = Fin (s w)\<rparr>) \<Longrightarrow>
   fold (\<lambda>w tot. combine tot (part w)) ws
     \<lparr>sum_payoffs = Fin a, sum_sq_payoffs = Fin b, sum_ST = Fin c\<rparr>
   = \<lparr>sum_payoffs = Fin (a + (\<Sum>w\<leftarrow>ws. p w)),
      sum_sq_payoffs = Fin (b + (\<Sum>w\<leftarrow>ws. q w)),
      sum_ST = Fin (c + (\<Sum>w\<leftarrow>ws. s w))\<rparr>"
proof (induction ws arbitrary: a b c)
  case Nil
  then show ?case by simp
next
  case (Cons w ws)
  then show ?case by (simp add: combine_def add.assoc)
qed

lemma sum_list_concat_map:
  "(\<Sum>x\<leftarrow>concat (map g ws). f x) = (\<Sum>w\<leftarrow>ws. \<Sum>x\<leftarrow>g w. (f x :: real))"
  by (induction ws) simp_all

lemma parallel_region_fin:
  "0 \<le> t \<Longrightarrow>
   parallel_region env (Fin s0) (Fin k) (drift (Fin r) (Fin v) (Fin t)) (vol_sqrt_T (Fin v) (Fin t)) N
   = \<lparr>sum_payoffs = Fin (\<Sum>z\<leftarrow>all_draws env N. call_value (gbm_terminal s0 r v t z) k),
      sum_sq_payoffs = Fin (\<Sum>z\<leftarrow>all_draws env N. (call_value (gbm_terminal s0 r v t z) k)\<^sup>2),
      sum_ST = Fin (\<Sum>z\<leftarrow>all_draws env N. gbm_terminal s0 r v t z)\<rparr>"
  unfolding parallel_region_def zero_sums_def all_draws_def sum_list_concat_map
  by (subst fold_combine_fin [OF worker_fin]) simp_all

subsection \<open>Every iteration is executed once\<close>

lemma length_filter_less_Suc:
  "length (filter (\<lambda>i. f i < Suc W) xs)
     = length (filter (\<lambda>i. f i < W) xs) + length (filter (\<lambda>i. f i = (W::nat)) xs)"
  by (induction xs) auto

lemma sum_length_filter_owner:
  "(\<Sum>w\<leftarrow>[0..<W]. length (filter (\<lambda>i. f i = w) xs)) = length (filter (\<lambda>i. f i < W) xs)"
  by (induction W) (simp_all add: length_filter_less_Suc)

lemma mset_filter_less_Suc:
  "filter_mset (\<lambda>i. f i < Suc W) M
     = filter_mset (\<lambda>i. f i < W) M + filter_mset (\<lambda>i. f i = (W::nat)) M"
  by (induction M) auto

lemma mset_concat_filter_owner:
  "mset (concat (map (\<lambda>w. filter (\<lambda>i. f i = w) xs) [0..<W])) = mset (filter (\<lambda>i. f i < W) xs)"
  by (induction W) (simp_all add: mset_filter_less_Suc)

lemma mset_thread_iterations:
  "schedule_ok env N \<Longrightarrow>
   mset (concat (map (thread_iterations env N) [0..<num_threads env])) = mset [0..<trip_count N]"
  using mset_concat_filter_owner [of "owner env" "[0..<trip_count N]" "num_threads env"]
  by (simp add: thread_iterations_def [abs_def] schedule_ok_def list_all_iff filter_mset_cong)

lemma length_all_draws:
  "length (all_draws env N)
     = length (filter (\<lambda>i. owner env i < num_threads env) [0..<trip_count N])"
  by (simp add: all_draws_def thread_draws_def thread_iterations_def length_concat comp_def
      sum_length_filter_owner)

lemma length_all_draws_le: "length (all_draws env N) \<le> trip_count N"
  using length_filter_le [of "\<lambda>i. owner env i < num_threads env" "[0..<trip_count N]"]
  by (simp add: length_all_draws)

lemma length_all_draws_ok: "schedule_ok env N \<Longrightarrow> length (all_draws env N) = trip_count N"
  by (simp add: length_all_draws schedule_ok_def list_all_iff)

lemma schedule_ok_two_threads: "schedule_ok two_threads N"
  by (simp add: schedule_ok_def list_all_iff two_threads_def)

lemma sint_in_range:
  "0 < n \<Longrightarrow> n \<le> 2147483647 \<Longrightarrow> sint (word_of_int n :: 32 word) = n"
  by (simp add: sint_sbintrunc' signed_take_bit_int_eq_self)

subsection \<open>The plug-in variance\<close>

lemma sum_sq_dev:
  "(\<Sum>x\<leftarrow>xs. (x - m)\<^sup>2) = (\<Sum>x\<leftarrow>xs. x\<^sup>2) - 2 * m * sum_list xs + real (length xs) * m\<^sup>2"
  for m :: real
  by (induction xs) (simp_all add: power2_eq_square algebra_simps)

lemma sum_list_sq_nonneg: "0 \<le> (\<Sum>x\<leftarrow>xs. (f x :: real)\<^sup>2)"
  by (induction xs) simp_all

lemma sum_sq_bound: "(sum_list xs)\<^sup>2 \<le> real (length xs) * (\<Sum>x\<leftarrow>xs. x\<^sup>2)"
proof (cases xs)
  case Nil
  then show ?thesis by simp
next
  case (Cons y ys)
  define n where "n = real (length xs)"
  define m where "m = sum_list xs / n"
  have n: "0 < n" using Cons by (simp add: n_def)
  have "0 \<le> (\<Sum>x\<leftarrow>xs. (x - m)\<^sup>2)" by (rule sum_list_sq_nonneg)
  also have "\<dots> = (\<Sum>x\<leftarrow>xs. x\<^sup>2) - 2 * m * sum_list xs + n * m\<^sup>2"
    by (simp add: sum_sq_dev n_def)
  also have "\<dots> = (\<Sum>x\<leftarrow>xs. x\<^sup>2) - (sum_list xs)\<^sup>2 / n"
    using n by (simp add: m_def power2_eq_square field_simps)
  finally have "(sum_list xs)\<^sup>2 / n \<le> (\<Sum>x\<leftarrow>xs. x\<^sup>2)" by simp
  then show ?thesis using n by (simp add: n_def field_simps)
qed

lemma plug_in_variance_nonneg:
  assumes "real (length xs) \<le> n" and "0 < n"
  shows "0 \<le> (\<Sum>x\<leftarrow>xs. x\<^sup>2) / n - (sum_list xs / n)\<^sup>2"
proof -
  have q: "0 \<le> (\<Sum>x\<leftarrow>xs. x\<^sup>2)" using sum_list_sq_nonneg [of "\<lambda>x. x" xs] by simp
  have "(sum_list xs)\<^sup>2 \<le> real (length xs) * (\<Sum>x\<leftarrow>xs. x\<^sup>2)" by (rule sum_sq_bound)
  also have "\<dots> \<le> n * (\<Sum>x\<leftarrow>xs. x\<^sup>2)" using assms q by (simp add: mult_right_mono)
  finally have "(sum_list xs)\<^sup>2 / n\<^sup>2 \<le> (n * (\<Sum>x\<leftarrow>xs. x\<^sup>2)) / n\<^sup>2"
    using assms by (simp add: divide_right_mono)
  then show ?thesis using assms by (simp add: power2_eq_square power_divide)
qed

subsection \<open>The statistics on finite totals\<close>

lemma double_of_int_pos:
  "0 < sint N \<Longrightarrow> \<exists>n. 0 < n \<and> double_of_int N = Fin n \<and> n = real_of_int (sint N)"
  by (simp add: double_of_int_def del: of_int_sint)

lemma variance_fin:
  "double_of_int N = Fin n \<Longrightarrow> n \<noteq> 0 \<Longrightarrow>
   variance \<lparr>sum_payoffs = Fin sp, sum_sq_payoffs = Fin sq, sum_ST = st\<rparr> N
     = Fin (sq / n - (sp / n)\<^sup>2)"
  by (simp add: variance_def mean_payoff_def dsub_def power2_eq_square)

lemma statistics_fin:
  assumes "double_of_int N = Fin n" and "0 < n" and "0 \<le> sq / n - (sp / n)\<^sup>2"
  shows "statistics (Fin d) \<lparr>sum_payoffs = Fin sp, sum_sq_payoffs = Fin sq, sum_ST = Fin st\<rparr> N
     = \<lparr>price = Fin (sp / n * d),
        std_error = Fin (sqrt (sq / n - (sp / n)\<^sup>2) / sqrt n * d),
        avg_final_price = Fin (st / n)\<rparr>"
proof -
  have v: "variance \<lparr>sum_payoffs = Fin sp, sum_sq_payoffs = Fin sq, sum_ST = Fin st\<rparr> N
      = Fin (sq / n - (sp / n)\<^sup>2)"
    using assms by (simp add: variance_fin)
  show ?thesis
    unfolding statistics_def v Let_def
    using assms by (simp add: mean_payoff_def)
qed

lemma avg_statistics: "avg_final_price (statistics d tot N) = ddiv (sum_ST tot) (double_of_int N)"
  by (simp add: statistics_def Let_def)

lemma sum_list_add_const: "(\<Sum>x\<leftarrow>xs. (c::real)) = real (length xs) * c"
  by (induction xs) (simp_all add: algebra_simps)

lemma gbm_zero_vol: "gbm_terminal s0 r 0 t z = s0 * exp (r * t)"
  by (simp add: gbm_terminal_def)

subsection \<open>Runs without iterations and runs on NaN\<close>

lemma worker_no_iterations:
  "trip_count N = 0 \<Longrightarrow> worker env S0 K d vs N w = zero_sums"
  by (simp add: worker_def thread_draws_def thread_iterations_def)

lemma fold_combine_zero:
  "fold (\<lambda>w tot. combine tot zero_sums) ws zero_sums = zero_sums"
  by (induction ws) (simp_all add: combine_def zero_sums_def)

lemma parallel_region_no_iterations:
  "trip_count N = 0 \<Longrightarrow> parallel_region env S0 K d vs N = zero_sums"
  by (simp add: parallel_region_def worker_no_iterations fold_combine_zero)

lemma statistics_zero_count:
  "statistics d zero_sums 0 = \<lparr>price = NaN, std_error = NaN, avg_final_price = NaN\<rparr>"
  by (simp add: statistics_def variance_def mean_payoff_def double_of_int_def zero_sums_def
      dsub_def Let_def)

lemma pricer_zero_count:
  "monte_carlo_pricer S0 K r sigma T 0 env
     = \<lparr>price = NaN, std_error = NaN, avg_final_price = NaN\<rparr>"
  by (simp add: monte_carlo_pricer_def parallel_region_no_iterations trip_count_def
      statistics_zero_count)

lemma dadd_NaN_right: "dadd x NaN = NaN"
  by (cases x) simp_all

lemma dmul_NaN_right: "dmul x NaN = NaN"
  by (cases x) simp_all

lemma vol_sqrt_T_negative: "t < 0 \<Longrightarrow> vol_sqrt_T sigma (Fin t) = NaN"
  by (simp add: vol_sqrt_T_def dmul_NaN_right)

lemma terminal_price_NaN: "terminal_price S0 d NaN z = NaN"
  by (simp add: terminal_price_def dadd_NaN_right dmul_NaN_right)

lemma call_payoff_NaN: "call_payoff NaN K = NaN"
  by (simp add: call_payoff_def dsub_def dmax_def)

lemma trial_NaN: "trial S0 K d NaN z acc = nan_sums"
  by (simp add: trial_def terminal_price_NaN call_payoff_NaN dadd_NaN_right nan_sums_def)

lemma fold_trial_NaN_stays: "fold (trial S0 K d NaN) zs nan_sums = nan_sums"
  by (induction zs) (simp_all add: trial_NaN)

lemma fold_trial_NaN: "zs \<noteq> [] \<Longrightarrow> fold (trial S0 K d NaN) zs acc = nan_sums"
  by (cases zs) (simp_all add: trial_NaN fold_trial_NaN_stays)

lemma worker_NaN:
  "worker env S0 K d NaN N w = (if thread_iterations env N w = [] then zero_sums else nan_sums)"
  by (simp add: worker_def thread_draws_def fold_trial_NaN)

lemma combine_cases:
  "combine zero_sums zero_sums = zero_sums" "combine nan_sums zero_sums = nan_sums"
  "combine tot nan_sums = nan_sums"
  by (simp_all add: combine_def zero_sums_def nan_sums_def dadd_NaN_right)

lemma fold_combine_NaN:
  assumes "\<And>w. part w = zero_sums \<or> part w = nan_sums"
    and "tot = nan_sums \<or> tot = zero_sums \<and> (\<exists>w \<in> set ws. part w = nan_sums)"
  shows "fold (\<lambda>w tot. combine tot (part w)) ws tot = nan_sums"
  using assms(2)
proof (induction ws arbitrary: tot)
  case Nil
  then show ?case by simp
next
  case (Cons w ws)
  show ?case
  proof (cases "combine tot (part w) = nan_sums")
    case True
    then show ?thesis using Cons.IH [of "combine tot (part w)"] by simp
  next
    case False
    then have pw: "part w = zero_sums" and t: "tot = zero_sums"
      using assms(1) [of w] Cons.prems by (auto simp: combine_cases)
    then have "\<exists>w \<in> set ws. part w = nan_sums"
      using Cons.prems by (auto simp: zero_sums_def nan_sums_def)
    then show ?thesis using Cons.IH [of "combine tot (part w)"] pw t by (simp add: combine_cases)
  qed
qed

lemma first_iteration_owned:
  assumes "0 < sint N" and "schedule_ok env N"
  shows "\<exists>w \<in> set [0..<num_threads env]. thread_iterations env N w \<noteq> []"
proof -
  have pos: "0 < trip_count N" using assms(1) by (simp add: trip_count_def)
  then have "owner env 0 < num_threads env" using assms(2) by (simp add: schedule_ok_def list_all_iff)
  moreover have "0 \<in> set (thread_iterations env N (owner env 0))"
    using pos by (simp add: thread_iterations_def)
  ultimately show ?thesis by (metis atLeast0LessThan empty_iff lessThan_iff list.set(1) set_upt)
qed

lemma parallel_region_NaN:
  assumes "0 < sint N" and "schedule_ok env N"
  shows "parallel_region env S0 K d NaN N = nan_sums"
  unfolding parallel_region_def
proof (rule fold_combine_NaN)
  show "worker env S0 K d NaN N w = zero_sums \<or> worker env S0 K d NaN N w = nan_sums" for w
    by (simp add: worker_NaN)
  show "zero_sums = nan_sums \<or> zero_sums = zero_sums \<and>
      (\<exists>w \<in> set [0..<num_threads env]. worker env S0 K d NaN N w = nan_sums)"
    using first_iteration_owned [OF assms] by (auto simp: worker_NaN)
qed

lemma statistics_NaN:
  "statistics d nan_sums N = \<lparr>price = NaN, std_error = NaN, avg_final_price = NaN\<rparr>"
  by (simp add: statistics_def variance_def mean_payoff_def nan_sums_def dsub_def Let_def)

lemma pricer_negative_maturity:
  assumes "t < 0" and "0 < sint N" and "schedule_ok env N"
  shows "monte_carlo_pricer S0 K r sigma (Fin t) N env
     = \<lparr>price = NaN, std_error = NaN, avg_final_price = NaN\<rparr>"
  by (simp add: monte_carlo_pricer_def vol_sqrt_T_negative [OF assms(1)]
      parallel_region_NaN [OF assms(2,3)] statistics_NaN)

subsection \<open>The loops of the volatility estimator on positive prices\<close>

lemma returns_loop_prefix:
  assumes "\<forall>p \<in> set ps. 0 < p" and "n \<le> length ps"
  shows "fold (returns_step (map Fin ps)) [1..<n] ([], Fin 0)
     = (map Fin (map (\<lambda>i. ln (ps ! i / ps ! (i - 1))) [1..<n]),
        Fin (\<Sum>i\<leftarrow>[1..<n]. ln (ps ! i / ps ! (i - 1))))"
  using assms(2)
proof (induction n)
  case 0
  then show ?case by simp
next
  case (Suc n)
  show ?case
  proof (cases "n = 0")
    case True
    then show ?thesis by simp
  next
    case False
    then have up: "[1..<Suc n] = [1..<n] @ [n]" by simp
    have a: "0 < ps ! n" and b: "0 < ps ! (n - 1)"
      using Suc.prems assms(1) by (simp_all add: less_imp_diff_less)
    then have q: "0 < ps ! n / ps ! (n - 1)" by simp
    have n1: "n < length ps" "n - 1 < length ps" using Suc.prems by simp_all
    show ?thesis
      using Suc.IH Suc.prems a b q n1 unfolding up
      by (simp add: returns_step_def Let_def)
  qed
qed

lemma returns_loop_fin:
  assumes "\<forall>p \<in> set ps. 0 < p"
  shows "returns_loop (map Fin ps)
     = (map Fin (log_returns_spec ps), Fin (sum_list (log_returns_spec ps)))"
  using returns_loop_prefix [OF assms, of "length ps"]
  by (simp add: returns_loop_def log_returns_spec_def)

lemma sq_loop_acc:
  "fold (\<lambda>u sq_sum. dadd sq_sum (dmul (dsub u (Fin mu)) (dsub u (Fin mu)))) (map Fin us) (Fin a)
     = Fin (a + (\<Sum>u\<leftarrow>us. (u - mu)\<^sup>2))"
  by (induction us arbitrary: a) (simp_all add: dsub_def power2_eq_square add.assoc)

lemma sq_loop_fin: "sq_loop (Fin mu) (map Fin us) = Fin (\<Sum>u\<leftarrow>us. (u - mu)\<^sup>2)"
  by (simp add: sq_loop_def sq_loop_acc)

lemma length_log_returns_spec: "length (log_returns_spec ps) = length ps - 1"
  by (simp add: log_returns_spec_def)

lemma two_positive_prices_nan:
  assumes "0 < p" and "0 < q"
  shows "calculate_historical_volatility [Fin p, Fin q] = NaN"
  using assms
  by (simp add: calculate_historical_volatility_def returns_loop_def returns_step_def
      sq_loop_def dsub_def Let_def)

subsection \<open>Rounding at the numbers of the binary64 run\<close>

lemma ulp64_normal:
  assumes "2 powr of_int e \<le> \<bar>x\<bar>" and "\<bar>x\<bar> < 2 powr (of_int e + 1)" and "- 1022 \<le> e"
  shows "ulp64 x = 2 powr (of_int e - 52)"
proof -
  have pos: "0 < \<bar>x\<bar>" using assms(1) by (smt (verit) powr_gt_zero)
  have "of_int e \<le> log 2 \<bar>x\<bar>" using assms(1) pos by (simp add: le_log_iff)
  moreover have "log 2 \<bar>x\<bar> < of_int e + 1" using assms(2) pos by (simp add: log_less_iff)
  ultimately have "\<lfloor>log 2 \<bar>x\<bar>\<rfloor> = e" by (simp add: floor_unique)
  then show ?thesis using assms(3) by (simp add: ulp64_def max_def)
qed

lemma round64_zero: "round64 (Fin 0) = Fin 0"
  by (simp add: round64_def)

lemma ulp64_one: "ulp64 1 = 1 / 2 ^ 52"
  using ulp64_normal [of 0 1] by (simp add: powr_minus_divide)

lemma round64_one: "round64 (Fin 1) = Fin 1"
  by (simp add: round64_def ulp64_one round_even_def Let_def)

lemma ulp64_tenth: "ulp64 (3602879701896397 / 36028797018963968) = 1 / 2 ^ 56"
  using ulp64_normal [of "- 4" "3602879701896397 / 36028797018963968"]
  by (simp add: powr_minus_divide)

lemma round64_tenth:
  "round64 (Fin (3602879701896397 / 36028797018963968)) = Fin (3602879701896397 / 36028797018963968)"
  by (simp add: round64_def ulp64_tenth round_even_def Let_def)

lemma ulp64_two_tenths: "ulp64 (3602879701896397 / 18014398509481984) = 1 / 2 ^ 55"
  using ulp64_normal [of "- 3" "3602879701896397 / 18014398509481984"]
  by (simp add: powr_minus_divide)

lemma round64_two_tenths:
  "round64 (Fin (3602879701896397 / 18014398509481984)) = Fin (3602879701896397 / 18014398509481984)"
  by (simp add: round64_def ulp64_two_tenths round_even_def Let_def)

lemma ulp64_three_tenths: "ulp64 (10808639105689191 / 36028797018963968) = 1 / 2 ^ 54"
  using ulp64_normal [of "- 2" "10808639105689191 / 36028797018963968"]
  by (simp add: powr_minus_divide)

lemma round64_three_tenths:
  "round64 (Fin (10808639105689191 / 36028797018963968)) = Fin (1351079888211149 / 4503599627370496)"
  by (simp add: round64_def ulp64_three_tenths round_even_def Let_def)

lemma ulp64_quotient: "ulp64 (1351079888211149 / 13510798882111488) = 1 / 2 ^ 56"
  using ulp64_normal [of "- 4" "1351079888211149 / 13510798882111488"]
  by (simp add: powr_minus_divide)

lemma round64_quotient:
  "round64 (Fin (1351079888211149 / 13510798882111488)) = Fin (7205759403792795 / 72057594037927936)"
  by (simp add: round64_def ulp64_quotient round_even_def Let_def)

lemmas round64_facts = round64_zero round64_one round64_tenth round64_two_tenths
  round64_three_tenths round64_quotient

lemma avg_statistics64:
  "avg_final_price (statistics64 d tot N) = bdiv (sum_ST tot) (double_of_int N)"
  by (simp add: statistics64_def Let_def)

lemma upt_three_trips: "[0..<trip_count 3] = [0, 1, 2]"
  by (simp add: trip_count_def upt_rec)

lemma draws_thread_0: "thread_draws two_threads 3 0 = [1, - 1]"
  by (simp add: thread_draws_def thread_iterations_def upt_three_trips two_threads_def)

lemma draws_thread_1: "thread_draws two_threads 3 (Suc 0) = [1]"
  by (simp add: thread_draws_def thread_iterations_def upt_three_trips two_threads_def)

lemma drift64_zero: "drift64 (Fin 0) (Fin 0) (Fin 1) = Fin 0"
  by (simp add: drift64_def bmul_def bsub_def dsub_def round64_facts)

lemma vol_sqrt_T64_zero: "vol_sqrt_T64 (Fin 0) (Fin 1) = Fin 0"
  by (simp add: vol_sqrt_T64_def bmul_def bsqrt_def round64_facts)

lemma terminal_price64_tenth: "terminal_price64 (Fin (3602879701896397 / 36028797018963968)) (Fin 0) (Fin 0) z
    = Fin (3602879701896397 / 36028797018963968)"
  by (simp add: terminal_price64_def bmul_def badd_def bexp_def round64_facts)

lemma sum_ST_trial64:
  "sum_ST (trial64 S0 K dr vs z acc) = badd (sum_ST acc) (terminal_price64 S0 dr vs z)"
  by (simp add: trial64_def Let_def)

lemma upt_team: "[0..<num_threads two_threads] = [0, Suc 0]"
  by (simp add: two_threads_def upt_rec)

lemma parallel_region64_tenth:
  "sum_ST (parallel_region64 two_threads (Fin (3602879701896397 / 36028797018963968))
     (Fin (3602879701896397 / 36028797018963968)) (Fin 0) (Fin 0) 3)
   = Fin (1351079888211149 / 4503599627370496)"
  by (simp add: parallel_region64_def worker64_def combine64_def draws_thread_0 draws_thread_1 zero_sums_def
      sum_ST_trial64 terminal_price64_tenth badd_def round64_facts upt_team)

section \<open>The simulation engine\<close>

text \<open>
  C1: in every run with finite parameters and maturity \<open>t \<ge> 0\<close>, and for every trial with
  variate \<open>z\<close>, the terminal price is \<open>S_T = s0 * exp ((r - 0.5 * v\<^sup>2) * t + v * sqrt t * z)\<close>,
  the payoff is \<open>max (S_T - k) 0\<close>, and the trial adds exactly the payoff, its square and
  \<open>S_T\<close> to the three sums of the thread; hence after its loop the accumulator of thread \<open>w\<close>
  holds the sums of these three quantities over the variates the thread drew.
\<close>

theorem trial_accumulates_payoff:
  assumes "0 \<le> t"
  shows "let S_T = (\<lambda>Z. s0 * exp ((r - 0.5 * v\<^sup>2) * t + v * sqrt t * Z));
             payoff = (\<lambda>Z. max (S_T Z - k) 0);
             dr = drift (Fin r) (Fin v) (Fin t);
             vs = vol_sqrt_T (Fin v) (Fin t)
         in terminal_price (Fin s0) dr vs z = Fin (S_T z)
          \<and> call_payoff (Fin (S_T z)) (Fin k) = Fin (payoff z)
          \<and> trial (Fin s0) (Fin k) dr vs z
               \<lparr>sum_payoffs = Fin a, sum_sq_payoffs = Fin b, sum_ST = Fin c\<rparr>
             = \<lparr>sum_payoffs = Fin (a + payoff z), sum_sq_payoffs = Fin (b + (payoff z)\<^sup>2),
                sum_ST = Fin (c + S_T z)\<rparr>
          \<and> worker env (Fin s0) (Fin k) dr vs N w
             = \<lparr>sum_payoffs = Fin (\<Sum>Z\<leftarrow>thread_draws env N w. payoff Z),
                sum_sq_payoffs = Fin (\<Sum>Z\<leftarrow>thread_draws env N w. (payoff Z)\<^sup>2),
                sum_ST = Fin (\<Sum>Z\<leftarrow>thread_draws env N w. S_T Z)\<rparr>"
  unfolding Let_def
  using terminal_price_fin [OF assms, of s0 r v z] call_payoff_fin [of "gbm_terminal s0 r v t z" k]
    trial_fin [OF assms, of s0 k r v z a b c] worker_fin [OF assms, of env s0 k r v N w]
  by (simp add: gbm_terminal_def [abs_def] call_value_def)

theorem trial_accumulates_payoff_witness:
  "(0::real) \<le> 1
   \<and> terminal_price (Fin 100) (drift (Fin (5 / 100)) (Fin (2 / 10)) (Fin 1))
        (vol_sqrt_T (Fin (2 / 10)) (Fin 1)) 1
      = Fin (100 * exp ((5 / 100 - 0.5 * (2 / 10)\<^sup>2) * 1 + 2 / 10 * sqrt 1 * 1))
   \<and> trial (Fin 100) (Fin 100) (drift (Fin (5 / 100)) (Fin (2 / 10)) (Fin 1))
        (vol_sqrt_T (Fin (2 / 10)) (Fin 1)) 1 zero_sums
      = \<lparr>sum_payoffs =
           Fin (max (100 * exp ((5 / 100 - 0.5 * (2 / 10)\<^sup>2) * 1 + 2 / 10 * sqrt 1 * 1) - 100) 0),
         sum_sq_payoffs =
           Fin ((max (100 * exp ((5 / 100 - 0.5 * (2 / 10)\<^sup>2) * 1 + 2 / 10 * sqrt 1 * 1) - 100) 0)\<^sup>2),
         sum_ST = Fin (100 * exp ((5 / 100 - 0.5 * (2 / 10)\<^sup>2) * 1 + 2 / 10 * sqrt 1 * 1))\<rparr>"
  using trial_accumulates_payoff [where t = 1 and ?s0.0 = 100 and r = "5 / 100" and v = "2 / 10"
      and z = 1 and k = 100 and a = 0 and b = 0 and c = 0 and env = two_threads and N = 4 and w = 0]
  by (simp add: Let_def zero_sums_def)

text \<open>
  C2: for every \<open>N > 0\<close> (finite parameters, maturity \<open>t \<ge> 0\<close>) the totals after the region
  are the sums, over the threads of the team, of the per-thread accumulators, and the result
  is \<open>price = sumPayoff / N * exp (- r * t)\<close>,
  \<open>std_error = sqrt (sumPayoffSquared / N - (sumPayoff / N)\<^sup>2) / sqrt N * exp (- r * t)\<close> and
  \<open>avg_final_price = sumTerminalPrice / N\<close>.
\<close>

theorem reduction_and_statistics:
  assumes "0 < sint N" and "0 \<le> t"
  shows "let S_T = (\<lambda>Z. s0 * exp ((r - 0.5 * v\<^sup>2) * t + v * sqrt t * Z));
             payoff = (\<lambda>Z. max (S_T Z - k) 0);
             dr = drift (Fin r) (Fin v) (Fin t);
             vs = vol_sqrt_T (Fin v) (Fin t);
             team = [0..<num_threads env];
             sumPayoff = (\<Sum>w\<leftarrow>team. \<Sum>Z\<leftarrow>thread_draws env N w. payoff Z);
             sumPayoffSquared = (\<Sum>w\<leftarrow>team. \<Sum>Z\<leftarrow>thread_draws env N w. (payoff Z)\<^sup>2);
             sumTerminalPrice = (\<Sum>w\<leftarrow>team. \<Sum>Z\<leftarrow>thread_draws env N w. S_T Z);
             n = real_of_int (sint N)
         in parallel_region env (Fin s0) (Fin k) dr vs N
              = \<lparr>sum_payoffs = Fin sumPayoff, sum_sq_payoffs = Fin sumPayoffSquared,
                 sum_ST = Fin sumTerminalPrice\<rparr>
          \<and> monte_carlo_pricer (Fin s0) (Fin k) (Fin r) (Fin v) (Fin t) N env
              = \<lparr>price = Fin (sumPayoff / n * exp (- r * t)),
                 std_error = Fin (sqrt (sumPayoffSquared / n - (sumPayoff / n)\<^sup>2) / sqrt n
                                   * exp (- r * t)),
                 avg_final_price = Fin (sumTerminalPrice / n)\<rparr>"
proof -
  obtain n where n: "0 < n" "double_of_int N = Fin n" "n = real_of_int (sint N)"
    using double_of_int_pos [OF assms(1)] by blast
  define ps where "ps = map (\<lambda>z. call_value (gbm_terminal s0 r v t z) k) (all_draws env N)"
  have "real (length ps) \<le> real (trip_count N)"
    using length_all_draws_le [of env N] by (simp add: ps_def)
  also have "\<dots> = n" using assms(1) by (simp add: trip_count_def n(3) del: of_int_sint)
  finally have le: "real (length ps) \<le> n" .
  have nn: "0 \<le> (\<Sum>x\<leftarrow>ps. x\<^sup>2) / n - (sum_list ps / n)\<^sup>2"
    by (rule plug_in_variance_nonneg [OF le n(1)])
  have sq: "(\<Sum>x\<leftarrow>ps. x\<^sup>2)
      = (\<Sum>z\<leftarrow>all_draws env N. (call_value (gbm_terminal s0 r v t z) k)\<^sup>2)"
    by (simp add: ps_def comp_def)
  have sp: "sum_list ps = (\<Sum>z\<leftarrow>all_draws env N. call_value (gbm_terminal s0 r v t z) k)"
    by (simp add: ps_def)
  have region: "parallel_region env (Fin s0) (Fin k) (drift (Fin r) (Fin v) (Fin t))
        (vol_sqrt_T (Fin v) (Fin t)) N
      = \<lparr>sum_payoffs = Fin (sum_list ps), sum_sq_payoffs = Fin (\<Sum>x\<leftarrow>ps. x\<^sup>2),
         sum_ST = Fin (\<Sum>z\<leftarrow>all_draws env N. gbm_terminal s0 r v t z)\<rparr>"
    unfolding sq sp by (rule parallel_region_fin [OF assms(2)])
  have res: "monte_carlo_pricer (Fin s0) (Fin k) (Fin r) (Fin v) (Fin t) N env
      = \<lparr>price = Fin (sum_list ps / n * exp (- r * t)),
         std_error = Fin (sqrt ((\<Sum>x\<leftarrow>ps. x\<^sup>2) / n - (sum_list ps / n)\<^sup>2) / sqrt n
                           * exp (- r * t)),
         avg_final_price = Fin ((\<Sum>z\<leftarrow>all_draws env N. gbm_terminal s0 r v t z) / n)\<rparr>"
    unfolding monte_carlo_pricer_def region discount_factor_fin
    by (rule statistics_fin [OF n(2) n(1) nn])
  show ?thesis
    unfolding Let_def n(3) [symmetric]
    using region res
    by (simp add: sq sp all_draws_def sum_list_concat_map gbm_terminal_def [abs_def]
        call_value_def)
qed

theorem reduction_and_statistics_witness:
  "0 < sint (2 :: 32 word) \<and> (0::real) \<le> 1
   \<and> avg_final_price
        (monte_carlo_pricer (Fin 100) (Fin 90) (Fin (5 / 100)) (Fin (2 / 10)) (Fin 1) 2 two_threads)
      = Fin ((\<Sum>w\<leftarrow>[0..<num_threads two_threads]. \<Sum>Z\<leftarrow>thread_draws two_threads 2 w.
                100 * exp ((5 / 100 - 0.5 * (2 / 10)\<^sup>2) * 1 + 2 / 10 * sqrt 1 * Z)) / 2)"
  using reduction_and_statistics [where N = 2 and t = 1 and ?s0.0 = 100 and k = 90
      and r = "5 / 100" and v = "2 / 10" and env = two_threads]
  by (simp add: Let_def)

text \<open>
  C3, as the code has it: the engine checks none of its parameters and rejects no call.
  With a sample count of 0 it runs through the region and the statistics and returns a result
  whose three fields are NaN, whatever the other parameters are; with a negative maturity
  (and \<open>N > 0\<close>) it returns the same all-NaN result.
\<close>

theorem no_parameter_validation:
  "monte_carlo_pricer S0 K r sigma T 0 env
     = \<lparr>price = NaN, std_error = NaN, avg_final_price = NaN\<rparr>
   \<and> (t < 0 \<and> 0 < sint N \<and> schedule_ok env N \<longrightarrow>
        monte_carlo_pricer S0 K r sigma (Fin t) N env
          = \<lparr>price = NaN, std_error = NaN, avg_final_price = NaN\<rparr>)"
  using pricer_zero_count pricer_negative_maturity by blast

theorem no_parameter_validation_witness:
  "(- 1 :: real) < 0 \<and> 0 < sint (2 :: 32 word) \<and> schedule_ok two_threads 2
   \<and> monte_carlo_pricer (Fin 100) (Fin 100) (Fin (5 / 100)) (Fin (2 / 10)) (Fin (- 1)) 2 two_threads
       = \<lparr>price = NaN, std_error = NaN, avg_final_price = NaN\<rparr>"
  using no_parameter_validation [where t = "- 1" and N = 2 and env = two_threads
      and ?S0.0 = "Fin 100" and K = "Fin 100" and r = "Fin (5 / 100)" and sigma = "Fin (2 / 10)"]
  by (simp add: schedule_ok_def list_all_iff two_threads_def)

text \<open>
  C3 as stated fails: called with the default market parameters and a sample count of 0,
  the engine does not reject the call; it returns the statistics of a division of 0.0 by 0.
\<close>

theorem zero_samples_not_rejected:
  "monte_carlo_pricer (Fin 100) (Fin 100) (Fin (5 / 100)) (Fin (2 / 10)) (Fin 1) 0 two_threads
     = \<lparr>price = NaN, std_error = NaN, avg_final_price = NaN\<rparr>"
  by (rule pricer_zero_count)

text \<open>
  C7, as the code has it: with volatility 0, finite parameters, maturity \<open>t \<ge> 0\<close>, any
  \<open>N > 0\<close> and a schedule that hands every iteration to a thread of the team, the diffusion
  term vanishes and every trial yields the terminal price \<open>s0 * exp (r * t)\<close> whatever the
  variate is; in exact real arithmetic, where the sum over the trials and the division by
  \<open>N\<close> do not round, the returned average terminal price is that same number.
\<close>

theorem zero_volatility_average:
  assumes "0 < sint N" and "0 \<le> t" and "schedule_ok env N"
  shows "(\<forall>z. terminal_price (Fin s0) (drift (Fin r) (Fin 0) (Fin t)) (vol_sqrt_T (Fin 0) (Fin t)) z
            = Fin (s0 * exp (r * t)))
       \<and> avg_final_price (monte_carlo_pricer (Fin s0) (Fin k) (Fin r) (Fin 0) (Fin t) N env)
            = Fin (s0 * exp (r * t))"
proof -
  obtain n where n: "0 < n" "double_of_int N = Fin n" "n = real_of_int (sint N)"
    using double_of_int_pos [OF assms(1)] by blast
  have len: "real (length (all_draws env N)) = n"
    using assms(1)
    by (simp add: length_all_draws_ok [OF assms(3)] trip_count_def n(3) del: of_int_sint)
  have "avg_final_price (monte_carlo_pricer (Fin s0) (Fin k) (Fin r) (Fin 0) (Fin t) N env)
      = ddiv (Fin (n * (s0 * exp (r * t)))) (Fin n)"
    by (simp add: monte_carlo_pricer_def avg_statistics parallel_region_fin [OF assms(2)]
        gbm_zero_vol sum_list_add_const len n(2))
  also have "\<dots> = Fin (s0 * exp (r * t))" using n(1) by simp
  finally show ?thesis
    using terminal_price_fin [OF assms(2), of s0 r 0] by (simp add: gbm_zero_vol)
qed

theorem zero_volatility_average_witness:
  "0 < sint (4 :: 32 word) \<and> (0::real) \<le> 1 \<and> schedule_ok two_threads 4
   \<and> avg_final_price
        (monte_carlo_pricer (Fin 100) (Fin 100) (Fin (5 / 100)) (Fin 0) (Fin 1) 4 two_threads)
       = Fin (100 * exp (5 / 100))"
  using zero_volatility_average [of 4 1 two_threads 100 "5 / 100" 100]
  by (simp add: schedule_ok_def list_all_iff two_threads_def)

text \<open>
  C7 as stated fails in the arithmetic of the program: with spot and strike the binary64
  number nearest to 0.1, rate 0, volatility 0, maturity 1 and 3 trials, every trial yields
  that spot, the sum of the three terminal prices rounds to 0.30000000000000004 and the
  returned average is 0.10000000000000002, one unit in the last place above
  \<open>spot * exp (rate * maturity)\<close>.
\<close>

theorem zero_volatility_average_rounds:
  "avg_final_price
     (monte_carlo_pricer64 (Fin (3602879701896397 / 36028797018963968))
        (Fin (3602879701896397 / 36028797018963968)) (Fin 0) (Fin 0) (Fin 1) 3 two_threads)
     = Fin (7205759403792795 / 72057594037927936)
   \<and> Fin (7205759403792795 / 72057594037927936)
     \<noteq> Fin (3602879701896397 / 36028797018963968 * exp (0 * 1))"
  by (simp add: monte_carlo_pricer64_def avg_statistics64 drift64_zero vol_sqrt_T64_zero
      parallel_region64_tenth bdiv_def double_of_int_def round64_facts)

text \<open>
  C8, as the code has it: the sample count is an \<open>int\<close>. Every \<open>n\<close> with
  \<open>0 < n \<le> 2147483647\<close> (about 2.1 billion) is representable, and then the loop has exactly
  \<open>n\<close> iterations, each executed once by one thread of the team, and \<open>n\<close> variates are drawn.
\<close>

theorem sample_count_int_range:
  assumes "0 < n" and "n \<le> 2147483647" and "schedule_ok env (word_of_int n)"
  shows "sint (word_of_int n :: 32 word) = n
       \<and> trip_count (word_of_int n) = nat n
       \<and> length (all_draws env (word_of_int n)) = nat n
       \<and> mset (concat (map (thread_iterations env (word_of_int n)) [0..<num_threads env]))
           = mset [0..<nat n]"
  using sint_in_range [OF assms(1,2)] length_all_draws_ok [OF assms(3)]
    mset_thread_iterations [OF assms(3)]
  by (simp add: trip_count_def)

theorem sample_count_int_range_witness:
  "(0::int) < 1000000000 \<and> (1000000000::int) \<le> 2147483647
   \<and> schedule_ok two_threads (word_of_int 1000000000)
   \<and> sint (word_of_int 1000000000 :: 32 word) = 1000000000
   \<and> trip_count (word_of_int 1000000000) = nat 1000000000
   \<and> length (all_draws two_threads (word_of_int 1000000000)) = nat 1000000000"
  using sample_count_int_range [of 1000000000 two_threads]
  by (simp add: schedule_ok_def list_all_iff two_threads_def)

text \<open>
  C8 as stated fails: three billion trials are not representable. Converted to the
  parameter's type the count is negative, the loop has no iteration and nothing is sampled.
\<close>

theorem three_billion_not_representable:
  "sint (word_of_int 3000000000 :: 32 word) = - 1294967296
   \<and> trip_count (word_of_int 3000000000) = 0
   \<and> all_draws two_threads (word_of_int 3000000000) = []"
  by (simp add: trip_count_def all_draws_def thread_draws_def thread_iterations_def
      two_threads_def)

text \<open>
  C9: the seed of a thread is the clock count that the thread itself reads inside the region
  plus its thread number. When thread 0 reads the clock one tick after thread 1, both threads
  construct their generator from the same seed and draw the same sequence of variates.
\<close>

theorem colliding_worker_seeds:
  "worker_seed (clock (racing_threads gen) 0) 0 = worker_seed (clock (racing_threads gen) 1) 1
   \<and> thread_draws (racing_threads gen) 4 0 = thread_draws (racing_threads gen) 4 1"
proof -
  have four: "[0..<trip_count 4] = [0, 1, 2, 3]"
    by (simp add: trip_count_def upt_rec)
  show ?thesis
    by (simp add: racing_threads_def worker_seed_def thread_draws_def thread_iterations_def four)
qed



section \<open>The volatility estimator\<close>

text \<open>
  C5: on every price sequence with fewer than 2 elements (empty or of one element, whatever
  the element is) \<open>calculate_historical_volatility\<close> returns the fallback 0.20; the function
  has no failing branch.
\<close>

theorem short_history_fallback:
  "length prices < 2 \<Longrightarrow> calculate_historical_volatility prices = Fin (20 / 100)"
  by (simp add: calculate_historical_volatility_def)

theorem short_history_fallback_witness:
  "length [Fin 100] < 2 \<and> calculate_historical_volatility [Fin 100] = Fin (20 / 100)"
  using short_history_fallback [of "[Fin 100]"] by simp

text \<open>
  C4: on the two prices 100, 100 the single log-return is 0, the mean is 0 and the sum of
  squared deviations is 0; the divisor \<open>log_returns.size() - 1\<close> is 0 as well, the function
  divides 0.0 by 0.0 and returns NaN, not 0.
\<close>

theorem two_equal_prices_nan:
  "calculate_historical_volatility [Fin 100, Fin 100] = NaN"
  by (simp add: calculate_historical_volatility_def returns_loop_def returns_step_def
      sq_loop_def dsub_def Let_def)

text \<open>
  C6, as the code has it: on every sequence of at least 3 strictly positive prices (at least
  two log-returns) the function returns \<open>sqrt (\<Sum>(u\<^sub>i - \<mu>)\<^sup>2 / (m - 1)) * sqrt 252\<close>, where the
  \<open>u\<^sub>i = ln (P\<^sub>i / P\<^sub>i\<^sub>-\<^sub>1)\<close> are the \<open>m\<close> consecutive log-returns and \<open>\<mu>\<close> is their mean.
\<close>

theorem bessel_volatility_three_prices:
  assumes "\<forall>p \<in> set ps. 0 < p" and "3 \<le> length ps"
  shows "calculate_historical_volatility (map Fin ps) = Fin (bessel_volatility ps)"
proof -
  define us where "us = log_returns_spec ps"
  define mu where "mu = sum_list us / real (length us)"
  have len: "length us = length ps - 1" by (simp add: us_def length_log_returns_spec)
  have m: "real (length us) \<noteq> 0" "real (length us - 1) \<noteq> 0" using assms(2) len by simp_all
  have mean: "ddiv (Fin (sum_list us)) (Fin (real (length us))) = Fin mu"
    using m by (simp add: mu_def)
  have nn: "0 \<le> (\<Sum>u\<leftarrow>us. (u - mu)\<^sup>2) / real (length us - 1)"
    by (simp add: sum_list_sq_nonneg)
  have "calculate_historical_volatility (map Fin ps)
      = dmul (dsqrt (ddiv (sq_loop (Fin mu) (map Fin us)) (Fin (real (length us - 1)))))
          (dsqrt (Fin 252))"
    using assms(2) mean
    by (simp add: calculate_historical_volatility_def returns_loop_fin [OF assms(1)] us_def Let_def)
  also have "\<dots> = Fin (sqrt ((\<Sum>u\<leftarrow>us. (u - mu)\<^sup>2) / real (length us - 1)) * sqrt 252)"
    using m nn by (simp add: sq_loop_fin)
  finally show ?thesis by (simp add: bessel_volatility_def us_def mu_def Let_def)
qed

theorem bessel_volatility_three_prices_witness:
  "(0::real) < 100 \<and> 3 \<le> length [100, 100, 100 :: real]
   \<and> calculate_historical_volatility (map Fin [100, 100, 100]) = Fin 0"
  using bessel_volatility_three_prices [of "[100, 100, 100]"]
  by (simp add: bessel_volatility_def log_returns_spec_def Let_def)

text \<open>
  C6 as stated fails on 2 prices: on 100, 110 there is one log-return, the divisor
  \<open>m - 1\<close> is 0 and the function returns NaN, which is no real number and so not the value
  of the formula.
\<close>

theorem two_prices_no_number:
  "calculate_historical_volatility (map Fin [100, 110]) \<noteq> Fin (bessel_volatility [100, 110])"
  using two_positive_prices_nan [of 100 110] by simp

end
